theory Spec2Isabelle
  imports Main
begin

section \<open>Scoring function\<close>

text \<open>
  \<^verbatim>\<open>calculateReactionScore\<close> of the challenge screen. Its argument is the difference
  of two \<^verbatim>\<open>Date.now()\<close> readings, a whole number of milliseconds, hence \<open>int\<close>;
  \<^verbatim>\<open>Math.floor(a / 10)\<close> on whole numbers is \<open>div\<close> on \<open>int\<close>, which rounds
  towards minus infinity as \<^verbatim>\<open>Math.floor\<close> does.
\<close>

definition calculateReactionScore :: "int \<Rightarrow> int" where
  "calculateReactionScore reactionTimeMs =
     (if reactionTimeMs \<ge> 1000 then 0
      else max 0 ((1000 - reactionTimeMs) div 10))"

section \<open>The stats collaborator\<close>

text \<open>
  \<^verbatim>\<open>updateUserStats\<close> of the game utilities, as the computation it performs on the
  stats document it reads (\<open>None\<close> when the document does not exist, in which case
  the source takes zeroed defaults). Dates are milliseconds since the epoch. The
  result pairs \<^verbatim>\<open>xpGained\<close> with the fields written back.
\<close>

abbreviation XP_PER_SCORE_POINT :: int where "XP_PER_SCORE_POINT \<equiv> 10"
abbreviation XP_PER_LEVEL :: int where "XP_PER_LEVEL \<equiv> 1000"

record userStats =
  totalXP :: int
  level :: int
  bestScore :: int
  challengesCompleted :: int
  weeklyXP :: int
  lastChallengeDate :: "int option"

definition defaultStats :: userStats where
  "defaultStats = \<lparr>totalXP = 0, level = 1, bestScore = 0, challengesCompleted = 0,
     weeklyXP = 0, lastChallengeDate = None\<rparr>"

definition updateUserStats :: "userStats option \<Rightarrow> int \<Rightarrow> int \<Rightarrow> int \<times> userStats" where
  "updateUserStats statsSnap today scoreArg =
     (let xpGained = scoreArg * XP_PER_SCORE_POINT;
          currentStats = (case statsSnap of Some d \<Rightarrow> d | None \<Rightarrow> defaultStats);
          newTotalXP = totalXP currentStats + xpGained;
          newLevel = newTotalXP div XP_PER_LEVEL + 1;
          newBestScore = max (bestScore currentStats) scoreArg;
          newChallengesCompleted = challengesCompleted currentStats + 1;
          weekOver = (case lastChallengeDate currentStats of
                        None \<Rightarrow> True
                      | Some d \<Rightarrow> today - d > 7 * (1000 * 60 * 60 * 24));
          newWeeklyXP = (if weekOver then xpGained else weeklyXP currentStats + xpGained)
      in (xpGained,
          \<lparr>totalXP = newTotalXP, level = newLevel, bestScore = newBestScore,
           challengesCompleted = newChallengesCompleted, weeklyXP = newWeeklyXP,
           lastChallengeDate = Some today\<rparr>))"

section \<open>The challenge screen\<close>

subsection \<open>Component state, refs and timers\<close>

text \<open>
  The \<^verbatim>\<open>useState\<close> values of \<^verbatim>\<open>ChallengeScreen\<close>. A target is known to the
  game logic by its \<^verbatim>\<open>id\<close> only; its \<^verbatim>\<open>x\<close>, \<^verbatim>\<open>y\<close> and \<^verbatim>\<open>scale\<close> are read by the
  drawing code alone.
\<close>

datatype challengeType = TargetChallenge | ColorChallenge

datatype color = Red | Green

record target =
  tid :: nat

record rstate =
  score :: nat
  timeLeft :: int
  targets :: "target list"
  circleColor :: color
  reactionTime :: "int option"
  roundsCompleted :: nat
  bestReactionTime :: "int option"
  greenTime :: "int option"
  isWaiting :: bool
  colorScore :: int
  isPlaying :: bool
  isPaused :: bool
  gameStarted :: bool
  loading :: bool

text \<open>
  A state variable is a constant of one render
  (\<^verbatim>\<open>const [colorScore, setColorScore] = useState(0)\<close>): a setter schedules the next
  render and does not change what the functions created by the current render
  read. A function of the component therefore closes over the state values of
  the render that created it, and a timer callback carries the \<open>rstate\<close> of its
  render where it reads state directly (through \<^verbatim>\<open>endGame\<close>, \<^verbatim>\<open>handleColorMiss\<close>
  or \<^verbatim>\<open>endColorGame\<close>). Updater functions \<^verbatim>\<open>(prev) => ...\<close> and refs read the
  current values instead. \<open>t_period\<close> is \<open>None\<close> for a \<^verbatim>\<open>setTimeout\<close> and the
  period of a \<^verbatim>\<open>setInterval\<close>.
\<close>

datatype callback =
    CountdownTick rstate
  | SpawnTick
  | ExpireTarget nat
  | TurnGreen rstate
  | AutoFail rstate
  | FinishGame rstate
  | NextRound nat

record timer =
  t_handle :: nat
  t_due :: int
  t_period :: "int option"
  t_callback :: callback

datatype alert = ChallengeComplete | TooEarly | TooLong | SaveError

datatype backend = BackendOk | InitFails | UpdateFails

datatype tref = TimerRef | TargetSpawnTimerRef | ColorTimerRef | WaitTimerRef

text \<open>
  The world: the route parameter, the pending state \<open>st\<close> and the state of the
  last committed render \<open>rendered\<close>, the refs, the timer facility (pending timers,
  next handle, clock), the environment (whether a user is signed in, how the
  remote calls behave, the coming draws of \<^verbatim>\<open>Math.random() * 3000\<close>), and what
  the screen has sent out (scores passed to \<^verbatim>\<open>updateUserStats\<close>, alerts shown,
  \<^verbatim>\<open>navigation.goBack()\<close>).
\<close>

record world =
  challenge :: challengeType
  st :: rstate
  rendered :: rstate
  timerRef :: "nat option"
  targetSpawnTimerRef :: "nat option"
  targetIdRef :: nat
  colorTimerRef :: "nat option"
  waitTimerRef :: "nat option"
  roundInProgressRef :: bool
  timers :: "timer list"
  nextHandle :: nat
  now :: int
  currentUser :: bool
  remote :: backend
  randoms :: "int list"
  statsCalls :: "int list"
  alerts :: "alert list"
  wentBack :: bool

abbreviation GAME_DURATION :: int where "GAME_DURATION \<equiv> 30"
abbreviation MIN_WAIT_TIME :: int where "MIN_WAIT_TIME \<equiv> 1000"
abbreviation MAX_WAIT_TIME :: int where "MAX_WAIT_TIME \<equiv> 4000"
abbreviation MAX_COLOR_ROUNDS :: nat where "MAX_COLOR_ROUNDS \<equiv> 10"
abbreviation COLOR_SCORE_XP_DIVISOR :: int where "COLOR_SCORE_XP_DIVISOR \<equiv> 10"

definition initialState :: rstate where
  "initialState = \<lparr>score = 0, timeLeft = GAME_DURATION, targets = [], circleColor = Red,
     reactionTime = None, roundsCompleted = 0, bestReactionTime = None, greenTime = None,
     isWaiting = False, colorScore = 0, isPlaying = False, isPaused = False,
     gameStarted = False, loading = False\<rparr>"

definition setState :: "(rstate \<Rightarrow> rstate) \<Rightarrow> world \<Rightarrow> world" where
  "setState f w = w\<lparr>st := f (st w)\<rparr>"

definition getRef :: "tref \<Rightarrow> world \<Rightarrow> nat option" where
  "getRef r w = (case r of TimerRef \<Rightarrow> timerRef w | TargetSpawnTimerRef \<Rightarrow> targetSpawnTimerRef w
     | ColorTimerRef \<Rightarrow> colorTimerRef w | WaitTimerRef \<Rightarrow> waitTimerRef w)"

definition setRef :: "tref \<Rightarrow> nat option \<Rightarrow> world \<Rightarrow> world" where
  "setRef r v w = (case r of TimerRef \<Rightarrow> w\<lparr>timerRef := v\<rparr>
     | TargetSpawnTimerRef \<Rightarrow> w\<lparr>targetSpawnTimerRef := v\<rparr>
     | ColorTimerRef \<Rightarrow> w\<lparr>colorTimerRef := v\<rparr>
     | WaitTimerRef \<Rightarrow> w\<lparr>waitTimerRef := v\<rparr>)"

text \<open>
  \<^verbatim>\<open>setTimeout\<close> and \<^verbatim>\<open>setInterval\<close> return a fresh positive handle;
  \<^verbatim>\<open>clearTimeout\<close> and \<^verbatim>\<open>clearInterval\<close> drop the timer of that handle, if any.
\<close>

definition setTimeout :: "callback \<Rightarrow> int \<Rightarrow> world \<Rightarrow> nat \<times> world" where
  "setTimeout cb delay w =
     (nextHandle w,
      w\<lparr>timers := timers w @ [\<lparr>t_handle = nextHandle w, t_due = now w + delay,
                                 t_period = None, t_callback = cb\<rparr>],
        nextHandle := nextHandle w + 1\<rparr>)"

definition setInterval :: "callback \<Rightarrow> int \<Rightarrow> world \<Rightarrow> nat \<times> world" where
  "setInterval cb delay w =
     (nextHandle w,
      w\<lparr>timers := timers w @ [\<lparr>t_handle = nextHandle w, t_due = now w + delay,
                                 t_period = Some delay, t_callback = cb\<rparr>],
        nextHandle := nextHandle w + 1\<rparr>)"

definition clearTimeout :: "nat \<Rightarrow> world \<Rightarrow> world" where
  "clearTimeout h w = w\<lparr>timers := filter (\<lambda>t. t_handle t \<noteq> h) (timers w)\<rparr>"

definition clearTimeoutRef :: "tref \<Rightarrow> world \<Rightarrow> world" where
  "clearTimeoutRef r w =
     (case getRef r w of None \<Rightarrow> w | Some h \<Rightarrow> setRef r None (clearTimeout h w))"

definition clearIntervalRef :: "tref \<Rightarrow> world \<Rightarrow> world" where
  "clearIntervalRef r w =
     (case getRef r w of None \<Rightarrow> w | Some h \<Rightarrow> setRef r None (clearTimeout h w))"

definition showAlert :: "alert \<Rightarrow> world \<Rightarrow> world" where
  "showAlert a w = w\<lparr>alerts := alerts w @ [a]\<rparr>"

text \<open>
  The two awaited remote calls. \<^verbatim>\<open>initializeUserProfile\<close> either returns or throws;
  \<^verbatim>\<open>updateUserStats\<close> is invoked with a score and either returns or throws.
\<close>

definition initializeUserProfile :: "world \<Rightarrow> bool" where
  "initializeUserProfile w = (remote w \<noteq> InitFails)"

definition callUpdateUserStats :: "int \<Rightarrow> world \<Rightarrow> bool \<times> world" where
  "callUpdateUserStats n w = (remote w = BackendOk, w\<lparr>statsCalls := statsCalls w @ [n]\<rparr>)"

subsection \<open>Target tapping\<close>

text \<open>
  \<^verbatim>\<open>spawnTarget\<close> drops the handle of the expiry timeout it creates.
  \<^verbatim>\<open>endGame\<close> reads \<^verbatim>\<open>score\<close> from its render \<open>env\<close>; what follows its
  \<^verbatim>\<open>await\<close>s touches only \<^verbatim>\<open>loading\<close>, \<^verbatim>\<open>gameStarted\<close>, the alert and the remote
  calls, and is taken in the same step.
\<close>

definition spawnTarget :: "world \<Rightarrow> world" where
  "spawnTarget w =
     (let newId = targetIdRef w;
          w1 = w\<lparr>targetIdRef := newId + 1\<rparr>;
          w2 = setState (\<lambda>s. s\<lparr>targets := targets s @ [\<lparr>tid = newId\<rparr>]\<rparr>) w1
      in snd (setTimeout (ExpireTarget newId) 3000 w2))"

definition expireTarget :: "nat \<Rightarrow> world \<Rightarrow> world" where
  "expireTarget targetId w =
     setState (\<lambda>s. s\<lparr>targets := filter (\<lambda>t. tid t \<noteq> targetId) (targets s)\<rparr>) w"

definition handleTargetPress :: "nat \<Rightarrow> world \<Rightarrow> world" where
  "handleTargetPress targetId w =
     (let w1 = setState (\<lambda>s. s\<lparr>score := score s + 1\<rparr>) w
      in setState (\<lambda>s. s\<lparr>targets := filter (\<lambda>t. tid t \<noteq> targetId) (targets s)\<rparr>) w1)"

definition endGame :: "rstate \<Rightarrow> world \<Rightarrow> world" where
  "endGame env w =
     (let w1 = setState (\<lambda>s. s\<lparr>isPlaying := False, isPaused := False, targets := []\<rparr>) w;
          w2 = clearIntervalRef TimerRef w1;
          w3 = clearIntervalRef TargetSpawnTimerRef w2
      in if currentUser w3 then
           (let w4 = setState (\<lambda>s. s\<lparr>loading := True\<rparr>) w3
            in if \<not> initializeUserProfile w4 then
                 setState (\<lambda>s. s\<lparr>loading := False\<rparr>) (showAlert SaveError w4)
               else if challenge w4 = TargetChallenge \<and> score env > 0 then
                 (case callUpdateUserStats (int (score env)) w4 of
                    (True, w5) \<Rightarrow> showAlert ChallengeComplete w5
                  | (False, w5) \<Rightarrow>
                      setState (\<lambda>s. s\<lparr>loading := False\<rparr>) (showAlert SaveError w5))
               else setState (\<lambda>s. s\<lparr>gameStarted := False, loading := False\<rparr>) w4)
         else setState (\<lambda>s. s\<lparr>gameStarted := False\<rparr>) w3)"

subsection \<open>Color reaction\<close>

text \<open>
  The block that \<^verbatim>\<open>handleColorFail\<close>, \<^verbatim>\<open>handleColorMiss\<close> and \<^verbatim>\<open>endColorGame\<close>
  each repeat for a signed-in user: \<^verbatim>\<open>setLoading(true)\<close>, the two awaited calls
  with \<^verbatim>\<open>Math.floor(colorScore / COLOR_SCORE_XP_DIVISOR)\<close>, the alert on success
  and the error alert in the \<^verbatim>\<open>catch\<close>.
\<close>

definition saveColorScore :: "alert \<Rightarrow> rstate \<Rightarrow> world \<Rightarrow> world" where
  "saveColorScore a env w =
     (let w1 = setState (\<lambda>s. s\<lparr>loading := True\<rparr>) w
      in if \<not> initializeUserProfile w1 then
           setState (\<lambda>s. s\<lparr>loading := False\<rparr>) (showAlert SaveError w1)
         else
           (let normalizedScore = colorScore env div COLOR_SCORE_XP_DIVISOR
            in case callUpdateUserStats normalizedScore w1 of
                 (True, w2) \<Rightarrow> showAlert a w2
               | (False, w2) \<Rightarrow>
                   setState (\<lambda>s. s\<lparr>loading := False\<rparr>) (showAlert SaveError w2)))"

definition resetColorGame :: "world \<Rightarrow> world" where
  "resetColorGame w =
     (setState (\<lambda>s. s\<lparr>circleColor := Red, reactionTime := None, roundsCompleted := 0,
                       bestReactionTime := None, greenTime := None, isWaiting := False,
                       gameStarted := False, colorScore := 0\<rparr>) w)
       \<lparr>roundInProgressRef := False\<rparr>"

definition handleColorFail :: "rstate \<Rightarrow> world \<Rightarrow> world" where
  "handleColorFail env w =
     (let w1 = setState (\<lambda>s. s\<lparr>isPlaying := False, gameStarted := False\<rparr>) w;
          w2 = clearTimeoutRef WaitTimerRef w1;
          w3 = clearTimeoutRef ColorTimerRef w2;
          w4 = w3\<lparr>roundInProgressRef := False\<rparr>
      in if colorScore env > 0 then
           (if currentUser w4 then saveColorScore TooEarly env w4
            else showAlert TooEarly w4)
         else showAlert TooEarly w4)"

definition handleColorMiss :: "rstate \<Rightarrow> world \<Rightarrow> world" where
  "handleColorMiss env w =
     (let w1 = setState (\<lambda>s. s\<lparr>isPlaying := False, gameStarted := False\<rparr>) w;
          w2 = clearTimeoutRef WaitTimerRef w1;
          w3 = w2\<lparr>roundInProgressRef := False\<rparr>
      in if colorScore env > 0 then
           (if currentUser w3 then saveColorScore TooLong env w3
            else showAlert TooLong w3)
         else showAlert TooLong w3)"

definition endColorGame :: "rstate \<Rightarrow> world \<Rightarrow> world" where
  "endColorGame env w =
     (let w1 = setState (\<lambda>s. s\<lparr>isPlaying := False, isPaused := False\<rparr>) w;
          w2 = clearTimeoutRef WaitTimerRef w1;
          w3 = clearTimeoutRef ColorTimerRef w2;
          w4 = w3\<lparr>roundInProgressRef := False\<rparr>
      in if currentUser w4 \<and> colorScore env > 0 then saveColorScore ChallengeComplete env w4
         else resetColorGame w4)"

definition turnGreen :: "rstate \<Rightarrow> world \<Rightarrow> world" where
  "turnGreen env w =
     (let w1 = setState (\<lambda>s. s\<lparr>circleColor := Green, greenTime := Some (now w),
                                 isWaiting := False\<rparr>) w
      in case setTimeout (AutoFail env) 3000 w1 of
           (h, w2) \<Rightarrow> w2\<lparr>colorTimerRef := Some h\<rparr>)"

text \<open>
  \<open>randoms\<close> holds the coming values of \<^verbatim>\<open>Math.random() * (MAX_WAIT_TIME - MIN_WAIT_TIME)\<close>
  as whole milliseconds; \<open>mod\<close> keeps a draw inside the range \<^verbatim>\<open>Math.random()\<close>
  guarantees.
\<close>

definition startColorRound :: "rstate \<Rightarrow> world \<Rightarrow> world" where
  "startColorRound env w =
     (let w1 = w\<lparr>roundInProgressRef := True\<rparr>;
          w2 = setState (\<lambda>s. s\<lparr>isWaiting := True, circleColor := Red,
                                 reactionTime := None\<rparr>) w1;
          waitTime = (case randoms w2 of [] \<Rightarrow> 0
                      | r # _ \<Rightarrow> r mod (MAX_WAIT_TIME - MIN_WAIT_TIME)) + MIN_WAIT_TIME;
          w3 = w2\<lparr>randoms := tl (randoms w2)\<rparr>
      in case setTimeout (TurnGreen env) waitTime w3 of
           (h, w4) \<Rightarrow> w4\<lparr>waitTimerRef := Some h\<rparr>)"

text \<open>
  JavaScript truthiness of a nullable number: \<^verbatim>\<open>null\<close> and \<^verbatim>\<open>0\<close> are falsy.
\<close>

definition truthy :: "int option \<Rightarrow> bool" where
  "truthy v = (case v of None \<Rightarrow> False | Some n \<Rightarrow> n \<noteq> 0)"

definition nextRound :: "nat \<Rightarrow> world \<Rightarrow> world" where
  "nextRound newRoundCount w =
     (let w1 = setState (\<lambda>s. s\<lparr>reactionTime := None\<rparr>) w;
          w2 = w1\<lparr>roundInProgressRef := False\<rparr>
      in setState (\<lambda>s. s\<lparr>roundsCompleted := newRoundCount\<rparr>) w2)"

definition handleColorPress :: "rstate \<Rightarrow> world \<Rightarrow> world" where
  "handleColorPress env w =
     (if circleColor env = Red then handleColorFail env w
      else if circleColor env = Green \<and> truthy (greenTime env) then
        (let clickTime = now w;
             reaction = clickTime - the (greenTime env);
             w1 = setState (\<lambda>s. s\<lparr>reactionTime := Some reaction\<rparr>) w;
             pointsEarned = calculateReactionScore reaction;
             w2 = setState (\<lambda>s. s\<lparr>colorScore := colorScore s + pointsEarned\<rparr>) w1;
             w3 = (if \<not> truthy (bestReactionTime env) \<or> reaction < the (bestReactionTime env)
                   then setState (\<lambda>s. s\<lparr>bestReactionTime := Some reaction\<rparr>) w2 else w2);
             w4 = clearTimeoutRef ColorTimerRef w3;
             newRoundCount = roundsCompleted env + 1
         in if newRoundCount \<ge> MAX_COLOR_ROUNDS
            then snd (setTimeout (FinishGame env) 1500 w4)
            else snd (setTimeout (NextRound newRoundCount) 1500 w4))
      else w)"

subsection \<open>Session control\<close>

definition startGame :: "world \<Rightarrow> world" where
  "startGame w =
     (let w1 = (if challenge w = TargetChallenge
                then setState (\<lambda>s. s\<lparr>score := 0, timeLeft := GAME_DURATION, targets := []\<rparr>) w
                else (setState (\<lambda>s. s\<lparr>circleColor := Red, reactionTime := None,
                                       roundsCompleted := 0, bestReactionTime := None,
                                       greenTime := None, isWaiting := False,
                                       colorScore := 0\<rparr>) w)
                       \<lparr>roundInProgressRef := False\<rparr>)
      in setState (\<lambda>s. s\<lparr>isPlaying := True, isPaused := False, gameStarted := True\<rparr>) w1)"

definition pauseGame :: "world \<Rightarrow> world" where
  "pauseGame w =
     (let w1 = setState (\<lambda>s. s\<lparr>isPaused := True\<rparr>) w
      in if challenge w1 = ColorChallenge
         then clearTimeoutRef ColorTimerRef (clearTimeoutRef WaitTimerRef w1)
         else w1)"

definition resumeGame :: "world \<Rightarrow> world" where
  "resumeGame w = setState (\<lambda>s. s\<lparr>isPaused := False\<rparr>) w"

text \<open>The \<^verbatim>\<open>onPress\<close> of the "Leave" button that \<^verbatim>\<open>handleBack\<close> offers while playing.\<close>

definition leaveGame :: "world \<Rightarrow> world" where
  "leaveGame w =
     (let w1 = setState (\<lambda>s. s\<lparr>isPlaying := False, targets := [], gameStarted := False\<rparr>) w;
          w2 = clearIntervalRef TimerRef w1;
          w3 = clearIntervalRef TargetSpawnTimerRef w2;
          w4 = clearTimeoutRef WaitTimerRef w3;
          w5 = clearTimeoutRef ColorTimerRef w4
      in w5\<lparr>wentBack := True\<rparr>)"

subsection \<open>Effects, rendering and the event loop\<close>

text \<open>
  The three \<^verbatim>\<open>useEffect\<close> hooks. Each body and each cleanup is a closure of the
  render \<open>env\<close> it was created in. The countdown interval calls the \<^verbatim>\<open>endGame\<close> of
  that render from inside the \<^verbatim>\<open>setTimeLeft\<close> updater.
\<close>

definition countdownEffect :: "rstate \<Rightarrow> world \<Rightarrow> world" where
  "countdownEffect env w =
     (if challenge w = TargetChallenge \<and> isPlaying env \<and> \<not> isPaused env \<and> timeLeft env > 0
      then (case setInterval (CountdownTick env) 1000 w of
              (h, w1) \<Rightarrow> w1\<lparr>timerRef := Some h\<rparr>)
      else clearIntervalRef TimerRef w)"

definition countdownTick :: "rstate \<Rightarrow> world \<Rightarrow> world" where
  "countdownTick env w =
     (if timeLeft (st w) \<le> 1
      then setState (\<lambda>s. s\<lparr>timeLeft := 0\<rparr>) (endGame env w)
      else setState (\<lambda>s. s\<lparr>timeLeft := timeLeft s - 1\<rparr>) w)"

definition spawnEffect :: "rstate \<Rightarrow> world \<Rightarrow> world" where
  "spawnEffect env w =
     (if challenge w = TargetChallenge \<and> isPlaying env \<and> \<not> isPaused env
      then (case setInterval SpawnTick 1500 (spawnTarget w) of
              (h, w1) \<Rightarrow> w1\<lparr>targetSpawnTimerRef := Some h\<rparr>)
      else clearIntervalRef TargetSpawnTimerRef w)"

definition colorEffect :: "rstate \<Rightarrow> world \<Rightarrow> world" where
  "colorEffect env w =
     (if challenge w = ColorChallenge \<and> isPlaying env \<and> \<not> isPaused env
         \<and> \<not> roundInProgressRef w
      then startColorRound env w else w)"

definition colorCleanup :: "rstate \<Rightarrow> world \<Rightarrow> world" where
  "colorCleanup env w =
     (if \<not> isPlaying env \<or> isPaused env
      then (clearTimeoutRef ColorTimerRef (clearTimeoutRef WaitTimerRef w))
             \<lparr>roundInProgressRef := False\<rparr>
      else w)"

text \<open>
  After an event has run to completion React renders the pending state and, for
  every effect one of whose dependencies differs from the last committed
  render, runs the previous cleanup and then the body of the new render: first
  all cleanups, then all bodies. The state set by the bodies themselves
  (\<^verbatim>\<open>targets\<close>, \<^verbatim>\<open>isWaiting\<close>, \<^verbatim>\<open>circleColor\<close>, \<^verbatim>\<open>reactionTime\<close>) is no dependency
  of any effect. \<^verbatim>\<open>challengeType\<close> never changes while the screen is mounted.
\<close>

definition commit :: "world \<Rightarrow> world" where
  "commit w =
     (let old = rendered w; new = st w;
          c2 = (isPlaying old \<noteq> isPlaying new \<or> isPaused old \<noteq> isPaused new);
          c1 = (c2 \<or> timeLeft old \<noteq> timeLeft new);
          c3 = (c2 \<or> roundsCompleted old \<noteq> roundsCompleted new);
          w1 = (if c1 then clearIntervalRef TimerRef w else w);
          w2 = (if c2 then clearIntervalRef TargetSpawnTimerRef w1 else w1);
          w3 = (if c3 then colorCleanup old w2 else w2);
          w4 = (if c1 then countdownEffect new w3 else w3);
          w5 = (if c2 then spawnEffect new w4 else w4);
          w6 = (if c3 then colorEffect new w5 else w5)
      in w6\<lparr>rendered := st w6\<rparr>)"

definition initWorld :: "challengeType \<Rightarrow> bool \<Rightarrow> backend \<Rightarrow> int list \<Rightarrow> world" where
  "initWorld ty user be rs =
     \<lparr>challenge = ty, st = initialState, rendered = initialState, timerRef = None,
      targetSpawnTimerRef = None, targetIdRef = 0, colorTimerRef = None,
      waitTimerRef = None, roundInProgressRef = False, timers = [], nextHandle = 1,
      now = 0, currentUser = user, remote = be, randoms = rs, statsCalls = [],
      alerts = [], wentBack = False\<rparr>"

definition mount :: "world \<Rightarrow> world" where
  "mount w =
     (let new = st w;
          w4 = countdownEffect new w;
          w5 = spawnEffect new w4;
          w6 = colorEffect new w5
      in w6\<lparr>rendered := st w6\<rparr>)"

text \<open>
  Unmounting the screen (navigation away) runs the cleanup of each effect, as
  created by the last committed render.
\<close>

definition unmount :: "world \<Rightarrow> world" where
  "unmount w =
     colorCleanup (rendered w)
       (clearIntervalRef TargetSpawnTimerRef (clearIntervalRef TimerRef w))"

text \<open>
  A handler invoked from the screen is the handler of the last committed render;
  the render and its effects follow.
\<close>

definition pressStart :: "world \<Rightarrow> world" where
  "pressStart w = commit (startGame w)"

definition pressPause :: "world \<Rightarrow> world" where
  "pressPause w = commit (pauseGame w)"

definition pressResume :: "world \<Rightarrow> world" where
  "pressResume w = commit (resumeGame w)"

definition tapTarget :: "nat \<Rightarrow> world \<Rightarrow> world" where
  "tapTarget targetId w = commit (handleTargetPress targetId w)"

definition tapCircle :: "world \<Rightarrow> world" where
  "tapCircle w = commit (handleColorPress (rendered w) w)"

definition pressLeave :: "world \<Rightarrow> world" where
  "pressLeave w = unmount (leaveGame w)"

text \<open>
  What \<^verbatim>\<open>renderTargetChallenge\<close> offers to tap: one button per target of the
  rendered state, once the game has started and while it is not paused.
\<close>

definition targetButtons :: "world \<Rightarrow> nat list" where
  "targetButtons w =
     (if \<not> gameStarted (rendered w) then []
      else if isPaused (rendered w) then []
      else map tid (targets (rendered w)))"

text \<open>
  The timer facility: firing a pending timer moves the clock to its due time,
  drops a timeout or re-arms an interval, runs the callback and lets React
  commit. \<open>advance n t\<close> fires the timers due up to time \<open>t\<close>, earliest first,
  and is \<open>None\<close> if more than \<open>n\<close> of them fire.
\<close>

definition runCallback :: "callback \<Rightarrow> world \<Rightarrow> world" where
  "runCallback cb w =
     (case cb of
        CountdownTick env \<Rightarrow> countdownTick env w
      | SpawnTick \<Rightarrow> spawnTarget w
      | ExpireTarget targetId \<Rightarrow> expireTarget targetId w
      | TurnGreen env \<Rightarrow> turnGreen env w
      | AutoFail env \<Rightarrow> handleColorMiss env w
      | FinishGame env \<Rightarrow> endColorGame env w
      | NextRound n \<Rightarrow> nextRound n w)"

definition fire :: "timer \<Rightarrow> world \<Rightarrow> world" where
  "fire t w =
     (let w1 = w\<lparr>now := max (now w) (t_due t)\<rparr>;
          others = filter (\<lambda>u. t_handle u \<noteq> t_handle t) (timers w1);
          w2 = (case t_period t of
                  None \<Rightarrow> w1\<lparr>timers := others\<rparr>
                | Some p \<Rightarrow> w1\<lparr>timers := others @ [t\<lparr>t_due := t_due t + p\<rparr>]\<rparr>)
      in commit (runCallback (t_callback t) w2))"

fun earliest :: "timer list \<Rightarrow> timer option" where
  "earliest [] = None"
| "earliest (t # ts) =
     (case earliest ts of
        None \<Rightarrow> Some t
      | Some u \<Rightarrow> if t_due t \<le> t_due u then Some t else Some u)"

fun advance :: "nat \<Rightarrow> int \<Rightarrow> world \<Rightarrow> world option" where
  "advance 0 t w = None"
| "advance (Suc n) t w =
     (case earliest (timers w) of
        None \<Rightarrow> Some (w\<lparr>now := max (now w) t\<rparr>)
      | Some tm \<Rightarrow>
          if t_due tm \<le> t then advance n t (fire tm w)
          else Some (w\<lparr>now := max (now w) t\<rparr>))"

subsection \<open>Untracked timers and example sessions\<close>

text \<open>
  A pending timer is untracked when no ref holds its handle (and the handle has
  been issued already): \<^verbatim>\<open>clearTimeoutRef\<close> and \<^verbatim>\<open>clearIntervalRef\<close> cannot reach
  it. \<^verbatim>\<open>spawnTarget\<close> and \<^verbatim>\<open>handleColorPress\<close> discard the handles of the
  timeouts they create.
\<close>

definition untracked :: "timer \<Rightarrow> world \<Rightarrow> bool" where
  "untracked t w =
     (t \<in> set (timers w) \<and> t_handle t < nextHandle w
      \<and> timerRef w \<noteq> Some (t_handle t) \<and> targetSpawnTimerRef w \<noteq> Some (t_handle t)
      \<and> colorTimerRef w \<noteq> Some (t_handle t) \<and> waitTimerRef w \<noteq> Some (t_handle t))"

text \<open>
  Two sessions just after "Start Challenge", with a signed-in user and a working
  backend: target tapping, and color reaction in which every wait before green
  is 1500 ms. \<open>playRound\<close> lets the circle turn green, taps it \<open>latency\<close> ms later
  and lets the 1500 ms display delay pass.
\<close>

definition targetSession :: world where
  "targetSession = pressStart (mount (initWorld TargetChallenge True BackendOk []))"

definition colorSession :: world where
  "colorSession =
     pressStart (mount (initWorld ColorChallenge True BackendOk (replicate 10 500)))"

definition playRound :: "int \<Rightarrow> world \<Rightarrow> world option" where
  "playRound latency w =
     Option.bind (advance 2 (now w + 1500) w) (\<lambda>w1.
     Option.bind (advance 1 (now w1 + latency) w1) (\<lambda>w2.
       advance 2 (now w2 + 1500) (tapCircle w2)))"

fun playRounds :: "nat \<Rightarrow> int \<Rightarrow> world \<Rightarrow> world option" where
  "playRounds 0 latency w = Some w"
| "playRounds (Suc n) latency w = Option.bind (playRound latency w) (playRounds n latency)"







section \<open>Properties of the scoring function\<close>

text \<open>
  C3, as the spec states it, fails: a latency of 995 ms is below 1000 and scores
  0, which is not in the half-open range (0,100]; and a latency of -10 ms (the
  wall clock stepped back between the two readings) scores 101, outside [0,100].
\<close>

theorem C3_score_range_counterexample:
  "\<not> (0 < calculateReactionScore 995 \<and> calculateReactionScore 995 \<le> 100)
   \<and> \<not> (calculateReactionScore (- 10) \<le> 100)"
  by (simp add: calculateReactionScore_def)

text \<open>
  C3 (amended): for every whole latency the score is 0 from 1000 ms on and
  \<open>\<lfloor>(1000 - latency) / 10\<rfloor>\<close> below; it is never negative, it is at most 100 for
  every non-negative latency, and it is positive exactly for latencies up to
  990 ms (991 to 999 ms score 0).
\<close>

theorem C3_score_range:
  "calculateReactionScore l = (if l \<ge> 1000 then 0 else (1000 - l) div 10)
   \<and> 0 \<le> calculateReactionScore l
   \<and> (0 \<le> l \<longrightarrow> calculateReactionScore l \<le> 100)
   \<and> (0 < calculateReactionScore l \<longleftrightarrow> l \<le> 990)"
  unfolding calculateReactionScore_def by (simp add: max_def) presburger

theorem C3_score_range_witness:
  "(0::int) \<le> 200 \<and> calculateReactionScore 200 = 80
   \<and> calculateReactionScore 200 \<le> 100 \<and> 0 < calculateReactionScore 200"
  using C3_score_range [of 200] by simp

text \<open>
  C4, as the spec states it, fails at its first value: 950 ms scores
  \<open>\<lfloor>50 / 10\<rfloor> = 5\<close>, not 4.
\<close>

theorem C4_score_points_counterexample:
  "calculateReactionScore 950 \<noteq> 4"
  by (simp add: calculateReactionScore_def)

text \<open>
  C4 (amended): the four fixed points of the scoring function are
  score(950) = 5, score(0) = 100, score(1000) = 0 and score(1500) = 0.
\<close>

theorem C4_score_points:
  "calculateReactionScore 950 = 5 \<and> calculateReactionScore 0 = 100
   \<and> calculateReactionScore 1000 = 0 \<and> calculateReactionScore 1500 = 0"
  by (simp add: calculateReactionScore_def)

section \<open>Timer refs, effects and handlers: what each changes\<close>

lemma clearIntervalRef_eq [simp]: "clearIntervalRef r w = clearTimeoutRef r w"
  by (simp add: clearIntervalRef_def clearTimeoutRef_def)

lemma clearTimeoutRef_frame [simp]:
  "st (clearTimeoutRef r w) = st w"
  "rendered (clearTimeoutRef r w) = rendered w"
  "challenge (clearTimeoutRef r w) = challenge w"
  "alerts (clearTimeoutRef r w) = alerts w"
  "statsCalls (clearTimeoutRef r w) = statsCalls w"
  "currentUser (clearTimeoutRef r w) = currentUser w"
  "remote (clearTimeoutRef r w) = remote w"
  "now (clearTimeoutRef r w) = now w"
  "nextHandle (clearTimeoutRef r w) = nextHandle w"
  "targetIdRef (clearTimeoutRef r w) = targetIdRef w"
  "roundInProgressRef (clearTimeoutRef r w) = roundInProgressRef w"
  "randoms (clearTimeoutRef r w) = randoms w"
  "wentBack (clearTimeoutRef r w) = wentBack w"
  by (simp_all add: clearTimeoutRef_def setRef_def clearTimeout_def getRef_def
      split: option.splits tref.splits)

lemma clearTimeoutRef_refs [simp]:
  "timerRef (clearTimeoutRef r w) = (if r = TimerRef then None else timerRef w)"
  "targetSpawnTimerRef (clearTimeoutRef r w) =
     (if r = TargetSpawnTimerRef then None else targetSpawnTimerRef w)"
  "colorTimerRef (clearTimeoutRef r w) = (if r = ColorTimerRef then None else colorTimerRef w)"
  "waitTimerRef (clearTimeoutRef r w) = (if r = WaitTimerRef then None else waitTimerRef w)"
  by (auto simp add: clearTimeoutRef_def setRef_def clearTimeout_def getRef_def
      split: option.splits tref.splits)

lemma timers_clearTimeoutRef:
  "timers (clearTimeoutRef r w) =
     (case getRef r w of None \<Rightarrow> timers w
      | Some h \<Rightarrow> filter (\<lambda>t. t_handle t \<noteq> h) (timers w))"
  by (simp add: clearTimeoutRef_def setRef_def clearTimeout_def
      split: option.splits tref.splits)

lemma clearTimeoutRef_idem [simp]:
  "clearTimeoutRef r (clearTimeoutRef r w) = clearTimeoutRef r w"
  by (cases r) (simp_all add: clearTimeoutRef_def setRef_def clearTimeout_def getRef_def
      split: option.splits)

lemma st_countdownEffect [simp]: "st (countdownEffect env w) = st w"
  by (simp add: countdownEffect_def setInterval_def)

lemma st_colorCleanup [simp]: "st (colorCleanup env w) = st w"
  by (simp add: colorCleanup_def)

lemma st_spawnEffect:
  "st (spawnEffect env w) =
     (if challenge w = TargetChallenge \<and> isPlaying env \<and> \<not> isPaused env
      then (st w)\<lparr>targets := targets (st w) @ [\<lparr>tid = targetIdRef w\<rparr>]\<rparr> else st w)"
  by (simp add: spawnEffect_def spawnTarget_def setInterval_def setTimeout_def setState_def Let_def)

lemma st_colorEffect:
  "st (colorEffect env w) =
     (if challenge w = ColorChallenge \<and> isPlaying env \<and> \<not> isPaused env
         \<and> \<not> roundInProgressRef w
      then (st w)\<lparr>isWaiting := True, circleColor := Red, reactionTime := None\<rparr> else st w)"
  by (simp add: colorEffect_def startColorRound_def setTimeout_def setState_def Let_def)

lemma effects_frame [simp]:
  "challenge (countdownEffect env w) = challenge w"
  "challenge (spawnEffect env w) = challenge w"
  "challenge (colorEffect env w) = challenge w"
  "challenge (colorCleanup env w) = challenge w"
  "alerts (countdownEffect env w) = alerts w"
  "alerts (spawnEffect env w) = alerts w"
  "alerts (colorEffect env w) = alerts w"
  "alerts (colorCleanup env w) = alerts w"
  "statsCalls (countdownEffect env w) = statsCalls w"
  "statsCalls (spawnEffect env w) = statsCalls w"
  "statsCalls (colorEffect env w) = statsCalls w"
  "statsCalls (colorCleanup env w) = statsCalls w"
  by (simp_all add: countdownEffect_def spawnEffect_def colorEffect_def colorCleanup_def
      spawnTarget_def startColorRound_def setInterval_def setTimeout_def setState_def Let_def)


lemma st_commit_same_deps:
  "isPlaying (rendered w) = isPlaying (st w) \<Longrightarrow> isPaused (rendered w) = isPaused (st w) \<Longrightarrow>
   timeLeft (rendered w) = timeLeft (st w) \<Longrightarrow>
   roundsCompleted (rendered w) = roundsCompleted (st w) \<Longrightarrow>
   commit w = w\<lparr>rendered := st w\<rparr>"
  by (simp add: commit_def Let_def)

lemma rendered_commit [simp]: "rendered (commit w) = st (commit w)"
  by (simp add: commit_def Let_def)

lemma commit_frame [simp]:
  "challenge (commit w) = challenge w"
  "alerts (commit w) = alerts w"
  "statsCalls (commit w) = statsCalls w"
  by (simp_all add: commit_def Let_def)

lemma effects_stopped [simp]:
  "\<not> isPlaying env \<Longrightarrow> countdownEffect env w = clearTimeoutRef TimerRef w"
  "\<not> isPlaying env \<Longrightarrow> spawnEffect env w = clearTimeoutRef TargetSpawnTimerRef w"
  "\<not> isPlaying env \<Longrightarrow> colorEffect env w = w"
  by (simp_all add: countdownEffect_def spawnEffect_def colorEffect_def)





lemma saveColorScore_frame [simp]:
  "timers (saveColorScore a env w) = timers w"
  "challenge (saveColorScore a env w) = challenge w"
  "currentUser (saveColorScore a env w) = currentUser w"
  "remote (saveColorScore a env w) = remote w"
  "waitTimerRef (saveColorScore a env w) = waitTimerRef w"
  "colorTimerRef (saveColorScore a env w) = colorTimerRef w"
  "timerRef (saveColorScore a env w) = timerRef w"
  "targetSpawnTimerRef (saveColorScore a env w) = targetSpawnTimerRef w"
  "roundInProgressRef (saveColorScore a env w) = roundInProgressRef w"
  "st (saveColorScore a env w) = (st w)\<lparr>loading := (remote w = BackendOk)\<rparr>"
  "alerts (saveColorScore a env w) = alerts w @ [if remote w = BackendOk then a else SaveError]"
  "statsCalls (saveColorScore a env w) =
     statsCalls w @ (if remote w = InitFails then []
                     else [colorScore env div COLOR_SCORE_XP_DIVISOR])"
  by (simp_all add: saveColorScore_def initializeUserProfile_def callUpdateUserStats_def
      setState_def showAlert_def Let_def split: bool.splits)






lemma endGame_frame [simp]:
  "challenge (endGame env w) = challenge w"
  "currentUser (endGame env w) = currentUser w"
  "remote (endGame env w) = remote w"
  "timerRef (endGame env w) = None"
  "targetSpawnTimerRef (endGame env w) = None"
  "timers (endGame env w) =
     timers (clearTimeoutRef TargetSpawnTimerRef (clearTimeoutRef TimerRef w))"
  by (simp_all add: endGame_def initializeUserProfile_def callUpdateUserStats_def
      setState_def showAlert_def Let_def timers_clearTimeoutRef getRef_def
      split: bool.splits option.splits)

lemma endGame_statsCalls:
  "statsCalls (endGame env w) =
     statsCalls w @ (if currentUser w \<and> remote w \<noteq> InitFails
                        \<and> challenge w = TargetChallenge \<and> score env > 0
                     then [int (score env)] else [])"
  by (simp add: endGame_def initializeUserProfile_def callUpdateUserStats_def
      setState_def showAlert_def Let_def split: bool.splits)

lemma endGame_st:
  "st (endGame env w) =
     (st w)\<lparr>isPlaying := False, isPaused := False, targets := [],
             gameStarted := (gameStarted (st w) \<and> currentUser w
                \<and> (remote w = InitFails \<or> challenge w = TargetChallenge \<and> score env > 0)),
             loading := (if currentUser w
                         then remote w = BackendOk \<and> challenge w = TargetChallenge \<and> score env > 0
                         else loading (st w))\<rparr>"
  by (auto simp add: endGame_def initializeUserProfile_def callUpdateUserStats_def
      setState_def showAlert_def Let_def split: bool.splits)

lemma endColorGame_frame [simp]:
  "challenge (endColorGame env w) = challenge w"
  "currentUser (endColorGame env w) = currentUser w"
  "remote (endColorGame env w) = remote w"
  "waitTimerRef (endColorGame env w) = None"
  "colorTimerRef (endColorGame env w) = None"
  "\<not> roundInProgressRef (endColorGame env w)"
  "timers (endColorGame env w) =
     timers (clearTimeoutRef ColorTimerRef (clearTimeoutRef WaitTimerRef w))"
  by (simp_all add: endColorGame_def resetColorGame_def
      setState_def Let_def timers_clearTimeoutRef getRef_def
      split: option.splits)

lemma endColorGame_statsCalls:
  "statsCalls (endColorGame env w) =
     statsCalls w @ (if currentUser w \<and> colorScore env > 0 \<and> remote w \<noteq> InitFails
                     then [colorScore env div COLOR_SCORE_XP_DIVISOR] else [])"
  by (simp add: endColorGame_def resetColorGame_def setState_def Let_def)


lemma endColorGame_st:
  "st (endColorGame env w) =
     (if currentUser w \<and> colorScore env > 0
      then (st w)\<lparr>isPlaying := False, isPaused := False, loading := (remote w = BackendOk)\<rparr>
      else (st w)\<lparr>isPlaying := False, isPaused := False, circleColor := Red,
                   reactionTime := None, roundsCompleted := 0, bestReactionTime := None,
                   greenTime := None, isWaiting := False, gameStarted := False,
                   colorScore := 0\<rparr>)"
  by (simp add: endColorGame_def resetColorGame_def setState_def Let_def)

lemma untracked_clearTimeoutRef: "untracked t w \<Longrightarrow> untracked t (clearTimeoutRef r w)"
  by (cases r) (auto simp add: untracked_def timers_clearTimeoutRef getRef_def split: option.splits)

lemma untracked_colorCleanup: "untracked t w \<Longrightarrow> untracked t (colorCleanup env w)"
  using untracked_clearTimeoutRef [of t "clearTimeoutRef WaitTimerRef w" ColorTimerRef]
    untracked_clearTimeoutRef [of t w WaitTimerRef]
  by (auto simp add: colorCleanup_def untracked_def)

lemma untracked_countdownEffect: "untracked t w \<Longrightarrow> untracked t (countdownEffect env w)"
  using untracked_clearTimeoutRef [of t w TimerRef]
  by (auto simp add: countdownEffect_def setInterval_def untracked_def)

lemma untracked_spawnEffect: "untracked t w \<Longrightarrow> untracked t (spawnEffect env w)"
  using untracked_clearTimeoutRef [of t w TargetSpawnTimerRef]
  by (auto simp add: spawnEffect_def spawnTarget_def setInterval_def setTimeout_def
      setState_def Let_def untracked_def)

lemma untracked_colorEffect: "untracked t w \<Longrightarrow> untracked t (colorEffect env w)"
  by (auto simp add: colorEffect_def startColorRound_def setTimeout_def
      setState_def Let_def untracked_def)

lemma untracked_rendered: "untracked t (w\<lparr>rendered := r\<rparr>) = untracked t w"
  by (simp add: untracked_def)

lemma untracked_st: "untracked t (w\<lparr>st := r\<rparr>) = untracked t w"
  by (simp add: untracked_def)

lemma untracked_commit:
  assumes "untracked t w" shows "untracked t (commit w)"
proof -
  let ?old = "rendered w" and ?new = "st w"
  define c2 where "c2 = (isPlaying ?old \<noteq> isPlaying ?new \<or> isPaused ?old \<noteq> isPaused ?new)"
  define c1 where "c1 = (c2 \<or> timeLeft ?old \<noteq> timeLeft ?new)"
  define c3 where "c3 = (c2 \<or> roundsCompleted ?old \<noteq> roundsCompleted ?new)"
  define w1 where "w1 = (if c1 then clearIntervalRef TimerRef w else w)"
  define w2 where "w2 = (if c2 then clearIntervalRef TargetSpawnTimerRef w1 else w1)"
  define w3 where "w3 = (if c3 then colorCleanup ?old w2 else w2)"
  define w4 where "w4 = (if c1 then countdownEffect ?new w3 else w3)"
  define w5 where "w5 = (if c2 then spawnEffect ?new w4 else w4)"
  define w6 where "w6 = (if c3 then colorEffect ?new w5 else w5)"
  have "untracked t w1" using assms by (simp add: w1_def untracked_clearTimeoutRef)
  then have "untracked t w2" by (simp add: w2_def untracked_clearTimeoutRef)
  then have "untracked t w3" by (simp add: w3_def untracked_colorCleanup)
  then have "untracked t w4" by (simp add: w4_def untracked_countdownEffect)
  then have "untracked t w5" by (simp add: w5_def untracked_spawnEffect)
  then have "untracked t w6" by (simp add: w6_def untracked_colorEffect)
  moreover have "commit w = w6\<lparr>rendered := st w6\<rparr>"
    by (simp add: commit_def Let_def w6_def w5_def w4_def w3_def w2_def w1_def c1_def c2_def c3_def)
  ultimately show ?thesis by (simp add: untracked_rendered)
qed

lemma untracked_pressPause: "untracked t w \<Longrightarrow> untracked t (pressPause w)"
  unfolding pressPause_def pauseGame_def Let_def setState_def
  by (auto intro!: untracked_commit untracked_clearTimeoutRef simp add: untracked_st)

lemma untracked_pressResume: "untracked t w \<Longrightarrow> untracked t (pressResume w)"
  unfolding pressResume_def resumeGame_def setState_def
  by (auto intro!: untracked_commit simp add: untracked_st)

lemma st_pressPause: "rendered w = st w \<Longrightarrow> st (pressPause w) = (st w)\<lparr>isPaused := True\<rparr>"
  by (simp add: pressPause_def pauseGame_def commit_def Let_def setState_def
      st_spawnEffect st_colorEffect)

lemma fire_expire_st:
  assumes "rendered w = st w" "t_callback t = ExpireTarget i"
  shows "st (fire t w) = (st w)\<lparr>targets := filter (\<lambda>x. tid x \<noteq> i) (targets (st w))\<rparr>"
proof -
  define v where "v = runCallback (t_callback t)
      (case t_period t of
         None \<Rightarrow> w\<lparr>now := max (now w) (t_due t),
                   timers := filter (\<lambda>u. t_handle u \<noteq> t_handle t) (timers w)\<rparr>
       | Some p \<Rightarrow> w\<lparr>now := max (now w) (t_due t),
                   timers := filter (\<lambda>u. t_handle u \<noteq> t_handle t) (timers w)
                             @ [t\<lparr>t_due := t_due t + p\<rparr>]\<rparr>)"
  have f: "fire t w = commit v"
    by (simp add: fire_def Let_def v_def split: option.splits)
  have sv: "st v = (st w)\<lparr>targets := filter (\<lambda>x. tid x \<noteq> i) (targets (st w))\<rparr>"
    and rv: "rendered v = st w"
    using assms by (simp_all add: v_def runCallback_def expireTarget_def setState_def
        split: option.splits)
  have "commit v = v\<lparr>rendered := st v\<rparr>"
    by (rule st_commit_same_deps) (simp_all add: sv rv)
  then show ?thesis by (simp add: f sv)
qed





lemma xpGained_updateUserStats:
  "fst (updateUserStats statsSnap today n) = n * XP_PER_SCORE_POINT"
  by (simp add: updateUserStats_def Let_def)

lemma tapTarget_quiescent:
  assumes "rendered w = st w"
  shows "tapTarget i w = (handleTargetPress i w)\<lparr>rendered := st (handleTargetPress i w)\<rparr>"
  unfolding tapTarget_def
  by (rule st_commit_same_deps) (simp_all add: handleTargetPress_def setState_def Let_def assms)

section \<open>Timers across pause and teardown\<close>

text \<open>
  C1: pausing a session and then tearing it down should leave no timer of the
  screen pending. In a target-tapping session that is started, paused after
  500 ms and then left through "Leave" (or simply unmounted), the expiry
  timeout of the first target, whose handle \<^verbatim>\<open>spawnTarget\<close> never stores, is
  still pending and due at 3000 ms. The same steps in a color-reaction session
  leave nothing pending: its timers are held in refs and cleared.
\<close>

theorem C1_expiry_timer_outlives_teardown:
  "map_option (timers \<circ> pressLeave \<circ> pressPause) (advance 1 500 targetSession)
     = Some [\<lparr>t_handle = 2, t_due = 3000, t_period = None, t_callback = ExpireTarget 0\<rparr>]
   \<and> map_option (timers \<circ> unmount \<circ> pressPause) (advance 1 500 targetSession)
     = Some [\<lparr>t_handle = 2, t_due = 3000, t_period = None, t_callback = ExpireTarget 0\<rparr>]
   \<and> map_option (timers \<circ> pressLeave \<circ> pressPause) (advance 1 500 colorSession) = Some []"
  by code_simp

text \<open>
  C8, as the spec states it, fails: a target that is live when the session is
  paused at 500 ms is removed at 3000 ms although the session is still paused.
\<close>

theorem C8_pause_counterexample:
  "map_option (\<lambda>w. (isPaused (st w), targets (st w)))
     (map_option pressPause (advance 1 500 targetSession)) = Some (True, [\<lparr>tid = 0\<rparr>])
   \<and> map_option (\<lambda>w. (isPaused (st w), targets (st w)))
     (Option.bind (map_option pressPause (advance 1 500 targetSession)) (advance 2 3000))
     = Some (True, [])"
  by code_simp

text \<open>
  C8 (amended): pausing does not suspend a target's expiry timeout. A pending
  expiry timeout (untracked, as every timeout of \<^verbatim>\<open>spawnTarget\<close> is) stays
  pending, with its due time unchanged, across pause and across pause followed
  by resume; the targets are the same right after the pause; and when the
  timeout fires while the session is paused it removes its target all the same.
  The time spent paused counts towards the 3000 ms.
\<close>

theorem C8_expiry_ignores_pause:
  assumes "untracked t w" "t_callback t = ExpireTarget i" "rendered w = st w"
  shows "untracked t (pressPause w) \<and> untracked t (pressResume (pressPause w))
    \<and> isPaused (st (pressPause w)) \<and> targets (st (pressPause w)) = targets (st w)
    \<and> isPaused (st (fire t (pressPause w)))
    \<and> targets (st (fire t (pressPause w))) = filter (\<lambda>x. tid x \<noteq> i) (targets (st w))"
proof -
  have r: "rendered (pressPause w) = st (pressPause w)"
    by (simp add: pressPause_def)
  show ?thesis
    using assms untracked_pressPause [OF assms(1)]
      untracked_pressResume [OF untracked_pressPause [OF assms(1)]]
    by (simp add: fire_expire_st [OF r assms(2)] st_pressPause)
qed

theorem C8_expiry_ignores_pause_witness:
  "untracked \<lparr>t_handle = 2, t_due = 3000, t_period = None, t_callback = ExpireTarget 0\<rparr>
     targetSession
   \<and> rendered targetSession = st targetSession
   \<and> targets (st targetSession) = [\<lparr>tid = 0\<rparr>]
   \<and> untracked \<lparr>t_handle = 2, t_due = 3000, t_period = None, t_callback = ExpireTarget 0\<rparr>
        (pressResume (pressPause targetSession))
   \<and> isPaused (st (fire \<lparr>t_handle = 2, t_due = 3000, t_period = None,
                           t_callback = ExpireTarget 0\<rparr> (pressPause targetSession)))
   \<and> targets (st (fire \<lparr>t_handle = 2, t_due = 3000, t_period = None,
                           t_callback = ExpireTarget 0\<rparr> (pressPause targetSession))) = []"
proof -
  let ?t = "\<lparr>t_handle = 2, t_due = 3000, t_period = None, t_callback = ExpireTarget 0\<rparr>"
  have u: "untracked ?t targetSession" by code_simp
  have r: "rendered targetSession = st targetSession" by code_simp
  have g: "targets (st targetSession) = [\<lparr>tid = 0\<rparr>]" by code_simp
  show ?thesis
    using C8_expiry_ignores_pause [OF u _ r, of 0] u r g by simp
qed

section \<open>Ending a session\<close>

text \<open>
  C2, as the spec states it, fails: after one hit in a target-tapping session,
  calling \<^verbatim>\<open>endGame\<close> and then calling it again invokes \<^verbatim>\<open>updateUserStats\<close> twice.
\<close>

theorem C2_end_twice_counterexample:
  "score (rendered (tapTarget 0 targetSession)) = 1
   \<and> statsCalls (endGame (rendered (tapTarget 0 targetSession))
        (tapTarget 0 targetSession)) = [1]
   \<and> statsCalls (endGame (rendered (tapTarget 0 targetSession))
        (endGame (rendered (tapTarget 0 targetSession)) (tapTarget 0 targetSession))) = [1, 1]"
  by code_simp

text \<open>
  C2 (amended): \<^verbatim>\<open>endGame\<close> and \<^verbatim>\<open>endColorGame\<close> do not check whether the session
  has ended already. A second call changes neither the component state nor the
  pending timers left by the first, but each call invokes \<^verbatim>\<open>updateUserStats\<close>
  once whenever a user is signed in, \<^verbatim>\<open>initializeUserProfile\<close> does not throw
  and the score its closure sees is positive (in \<^verbatim>\<open>endGame\<close>: and the challenge is
  target tapping); so two calls invoke it twice, or not at all, with that score
  (divided by 10 and rounded down in \<^verbatim>\<open>endColorGame\<close>).
\<close>

theorem C2_end_twice:
  "st (endGame env (endGame env w)) = st (endGame env w)
   \<and> timers (endGame env (endGame env w)) = timers (endGame env w)
   \<and> statsCalls (endGame env (endGame env w)) =
       statsCalls w @ concat (replicate 2
         (if currentUser w \<and> remote w \<noteq> InitFails \<and> challenge w = TargetChallenge
             \<and> score env > 0
          then [int (score env)] else []))
   \<and> st (endColorGame env (endColorGame env w)) = st (endColorGame env w)
   \<and> timers (endColorGame env (endColorGame env w)) = timers (endColorGame env w)
   \<and> statsCalls (endColorGame env (endColorGame env w)) =
       statsCalls w @ concat (replicate 2
         (if currentUser w \<and> colorScore env > 0 \<and> remote w \<noteq> InitFails
          then [colorScore env div COLOR_SCORE_XP_DIVISOR] else []))"
  by (simp add: endGame_st endGame_statsCalls endColorGame_st endColorGame_statsCalls
      timers_clearTimeoutRef getRef_def numeral_2_eq_2)

section \<open>Tapping a target\<close>

text \<open>
  C5, as the spec states it, fails: \<^verbatim>\<open>handleTargetPress\<close> invoked a second time for
  the id it has just removed (two presses dispatched before the next render)
  adds a second point.
\<close>

theorem C5_second_tap_counterexample:
  "targetButtons targetSession = [0]
   \<and> score (st (handleTargetPress 0 targetSession)) = 1
   \<and> targets (st (handleTargetPress 0 targetSession)) = []
   \<and> score (st (handleTargetPress 0 (handleTargetPress 0 targetSession))) = 2"
  by code_simp

text \<open>
  C5 (amended): a tap on a target adds exactly 1 to the score and removes the
  target of that id from the live targets; after the following render the
  screen offers no button for that id any more. A later expiry of that id
  changes nothing, and a repeated press leaves the live targets unchanged; but
  \<^verbatim>\<open>handleTargetPress\<close> does not check that the id is live, and a repeated call
  adds 1 to the score again.
\<close>

theorem C5_target_tap:
  "score (st (handleTargetPress i w)) = score (st w) + 1
   \<and> targets (st (handleTargetPress i w)) = filter (\<lambda>t. tid t \<noteq> i) (targets (st w))
   \<and> i \<notin> tid ` set (targets (st (handleTargetPress i w)))
   \<and> (rendered w = st w \<longrightarrow> i \<notin> set (targetButtons (tapTarget i w)))
   \<and> expireTarget i (handleTargetPress i w) = handleTargetPress i w
   \<and> targets (st (handleTargetPress i (handleTargetPress i w))) =
       targets (st (handleTargetPress i w))
   \<and> score (st (handleTargetPress i (handleTargetPress i w))) = score (st w) + 2"
proof -
  have v: "rendered w = st w \<longrightarrow> i \<notin> set (targetButtons (tapTarget i w))"
  proof
    assume q: "rendered w = st w"
    show "i \<notin> set (targetButtons (tapTarget i w))"
      unfolding tapTarget_quiescent [OF q]
      by (auto simp add: targetButtons_def handleTargetPress_def setState_def Let_def)
  qed
  show ?thesis
    using v by (auto simp add: handleTargetPress_def expireTarget_def setState_def Let_def)
qed

theorem C5_target_tap_witness:
  "rendered targetSession = st targetSession
   \<and> targetButtons targetSession = [0]
   \<and> score (st (handleTargetPress 0 targetSession)) = score (st targetSession) + 1
   \<and> 0 \<notin> set (targetButtons (tapTarget 0 targetSession))"
proof -
  have r: "rendered targetSession = st targetSession" by code_simp
  have b: "targetButtons targetSession = [0]" by code_simp
  show ?thesis using C5_target_tap [of 0 targetSession] r b by simp
qed

section \<open>Color reaction rounds\<close>







section \<open>Starting a session\<close>

text \<open>
  C9, as the spec states it, fails: \<^verbatim>\<open>startGame\<close> called on a running
  target-tapping session with one hit does not fail; it resets the score and
  leaves the session running.
\<close>

theorem C9_start_counterexample:
  "isPlaying (st (tapTarget 0 targetSession)) \<and> \<not> isPaused (st (tapTarget 0 targetSession))
   \<and> score (st (tapTarget 0 targetSession)) = 1
   \<and> score (st (startGame (tapTarget 0 targetSession))) = 0
   \<and> isPlaying (st (startGame (tapTarget 0 targetSession)))"
  by code_simp

text \<open>
  C9 (amended): \<^verbatim>\<open>startGame\<close> never fails and checks no lifecycle. From every
  state it resets the sub-state of the current mode to its initial values
  (target tapping: score 0, 30 seconds left, no targets; color reaction: red
  circle, no reaction time, no rounds completed, no best time, no green time,
  not waiting, score 0, no round in progress) and sets \<^verbatim>\<open>isPlaying\<close>,
  \<^verbatim>\<open>gameStarted\<close> and not \<^verbatim>\<open>isPaused\<close>; it touches no timer and shows no alert.
\<close>

theorem C9_start_resets:
  "st (startGame w) =
     (if challenge w = TargetChallenge
      then (st w)\<lparr>score := 0, timeLeft := GAME_DURATION, targets := [],
                  isPlaying := True, isPaused := False, gameStarted := True\<rparr>
      else (st w)\<lparr>circleColor := Red, reactionTime := None, roundsCompleted := 0,
                  bestReactionTime := None, greenTime := None, isWaiting := False,
                  colorScore := 0, isPlaying := True, isPaused := False,
                  gameStarted := True\<rparr>)
   \<and> roundInProgressRef (startGame w) =
       (challenge w = TargetChallenge \<and> roundInProgressRef w)
   \<and> timers (startGame w) = timers w \<and> alerts (startGame w) = alerts w"
  by (simp add: startGame_def setState_def Let_def)

section \<open>The score that is submitted\<close>

text \<open>
  C10: the score passed to \<^verbatim>\<open>updateUserStats\<close> should be the accumulated color
  score divided by 10 and rounded down, and the raw score in target tapping.
  \<^verbatim>\<open>endColorGame\<close> and \<^verbatim>\<open>endGame\<close> do compute that, from the score of the render
  their closure belongs to. After ten rounds of 50 points each the accumulated
  score is 500, yet the \<^verbatim>\<open>endColorGame\<close> scheduled by the tenth tap still sees 450
  and submits 45, for 450 XP. In target tapping a hit made at 29.5 s, after the
  countdown effect last ran, brings the score to 1, yet the \<^verbatim>\<open>endGame\<close> called by
  the last tick sees 0 and submits nothing.
\<close>

theorem C10_stale_score_submitted:
  "map_option (\<lambda>w. (colorScore (st w), statsCalls w))
     (playRounds 10 500 colorSession) = Some (500, [45])
   \<and> fst (updateUserStats None 0 45) = 450
   \<and> map_option targetButtons (advance 100 29500 targetSession) = Some [18, 19]
   \<and> map_option (\<lambda>w. (isPlaying (st w), score (st w), statsCalls w))
       (Option.bind (map_option (tapTarget 19) (advance 100 29500 targetSession))
          (advance 5 30000)) = Some (False, 1, [])"
  by code_simp

end
